theory Spec2Isabelle
  imports Complex_Main "HOL-Library.Sublist"
begin

section \<open>Strings as the two scripts use them\<close>

text \<open>
  The scripts are \<^verbatim>\<open>backend/scripts/generate_image.py\<close> (the generator) and
  \<^verbatim>\<open>backend/scripts/install_image_model.py\<close> (the installer). A Python \<^verbatim>\<open>str\<close> is
  modelled as a \<^typ>\<open>string\<close>. The only string operations of the scripts are
  \<^verbatim>\<open>str.lower()\<close>, the substring test \<^verbatim>\<open>sub in s\<close>, equality, concatenation in
  f-strings and \<^verbatim>\<open>os.path.join\<close>.

  \<^verbatim>\<open>str.lower()\<close> is modelled on the letters \<^verbatim>\<open>A\<close> to \<^verbatim>\<open>Z\<close> (codes 65 to 90), which
  move to \<^verbatim>\<open>a\<close> to \<^verbatim>\<open>z\<close>; every other character stays. The words the scripts compare
  with (\<^verbatim>\<open>turbo\<close>, \<^verbatim>\<open>xl\<close>, \<^verbatim>\<open>sdxl\<close>, \<^verbatim>\<open>true\<close>) are made of the letters
  b, d, e, l, o, r, s, t, u, x, and no character outside \<^verbatim>\<open>A\<close> to \<^verbatim>\<open>Z\<close> is lowered by
  Python to one of these.
\<close>

definition lower_char :: "char \<Rightarrow> char" where
  "lower_char c =
     (let n = (of_char c :: nat) in if 65 \<le> n \<and> n \<le> 90 then char_of (n + 32) else c)"

definition lower :: "string \<Rightarrow> string" where
  "lower s = map lower_char s"

text \<open>\<^verbatim>\<open>sub in s\<close>: \<^verbatim>\<open>sub\<close> starts at some position of \<^verbatim>\<open>s\<close>.\<close>

fun str_in :: "string \<Rightarrow> string \<Rightarrow> bool" where
  "str_in sub [] = (sub = [])"
| "str_in sub (c # cs) = (prefix sub (c # cs) \<or> str_in sub cs)"

text \<open>
  What "the identifier contains the word \<open>w\<close>, case-insensitively" means, stated without
  the code's search: some contiguous piece of the identifier is \<open>w\<close> up to letter case.
\<close>

definition contains_ci :: "string \<Rightarrow> string \<Rightarrow> bool" where
  "contains_ci w s \<longleftrightarrow> (\<exists>pre mid suf. s = pre @ mid @ suf \<and> lower mid = w)"

text \<open>Decimal text of an integer, as an f-string renders an \<^verbatim>\<open>int\<close>.\<close>

definition digit_char :: "nat \<Rightarrow> char" where
  "digit_char d = ''0123456789'' ! d"

fun show_nat :: "nat \<Rightarrow> string" where
  "show_nat n = (if n < 10 then [digit_char n] else show_nat (n div 10) @ [digit_char (n mod 10)])"

declare show_nat.simps [simp del]

definition show_int :: "int \<Rightarrow> string" where
  "show_int i = (if i < 0 then CHR ''-'' # show_nat (nat (- i)) else show_nat (nat i))"

text \<open>\<^verbatim>\<open>int(x)\<close> of a float: truncation towards zero.\<close>

definition py_int :: "real \<Rightarrow> int" where
  "py_int x = (if 0 \<le> x then \<lfloor>x\<rfloor> else \<lceil>x\<rceil>)"

text \<open>
  \<^verbatim>\<open>os.path.join(a, b)\<close> and \<^verbatim>\<open>os.path.isabs\<close> of \<^verbatim>\<open>posixpath\<close>: an absolute \<^verbatim>\<open>b\<close>
  replaces \<^verbatim>\<open>a\<close>; an empty \<^verbatim>\<open>a\<close>, or one that ends with the separator, is followed by
  \<^verbatim>\<open>b\<close> directly; otherwise the separator is put between them.
\<close>

definition path_join :: "string \<Rightarrow> string \<Rightarrow> string" where
  "path_join a b =
     (if prefix ''/'' b then b
      else if a = [] \<or> last a = CHR ''/'' then a @ b
      else a @ ''/'' @ b)"

definition isabs :: "string \<Rightarrow> bool" where
  "isabs p \<longleftrightarrow> prefix ''/'' p"

section \<open>Argument handling and the presets\<close>

text \<open>
  Both scripts declare \<^verbatim>\<open>--use-cpu\<close> with \<^verbatim>\<open>type=str\<close> and read it as
  \<^verbatim>\<open>args.use_cpu.lower() == 'true'\<close> (generate\_image.py line 79,
  install\_image\_model.py line 28).
\<close>

definition parse_use_cpu :: "string \<Rightarrow> bool" where
  "parse_use_cpu s \<longleftrightarrow> lower s = ''true''"

text \<open>
  generate\_image.py lines 34 to 44: \<^verbatim>\<open>is_turbo\<close>, \<^verbatim>\<open>is_sdxl\<close> and the
  \<^verbatim>\<open>if/elif/else\<close> that sets \<^verbatim>\<open>num_steps\<close> and \<^verbatim>\<open>guidance\<close>. The guidance values
  \<^verbatim>\<open>1.0\<close> and \<^verbatim>\<open>7.5\<close> are the reals 1 and 15/2.
\<close>

definition sampling_params :: "string \<Rightarrow> nat \<times> real" where
  "sampling_params model_name =
     (let is_turbo = str_in ''turbo'' (lower model_name);
          is_sdxl = str_in ''xl'' (lower model_name) \<or> str_in ''sdxl'' (lower model_name)
      in if is_turbo then (4, 1)
         else if is_sdxl then (30, 15 / 2)
         else (25, 15 / 2))"

section \<open>The world the scripts run in\<close>

text \<open>
  Everything outside the two scripts is an input of the model: whether the imports
  succeed, what \<^verbatim>\<open>torch.cuda.is_available()\<close> answers, what each call into the diffusers
  library does, the clock, what the calls that make the directory and save the file do,
  and the process environment. A call that can raise gives an exception or a value. A
  \<^verbatim>\<open>print\<close> is taken to succeed.

  \<open>makedirs\<close> gives the missing parent directories the call has made, and the
  exception it raised if it raised: \<^verbatim>\<open>os.makedirs\<close> makes every missing directory on
  the way to its argument, and can raise after it has made some of them.
  \<open>image_save\<close> gives the exception \<^verbatim>\<open>image.save\<close> raised, if any, and
  \<open>failed_save_leaves\<close> what a save that raised has left at the path, given what was
  there before (nothing, the old file, or a partial file).

  An \<open>exn\<close> is an instance of Python's \<^verbatim>\<open>Exception\<close> with the text \<^verbatim>\<open>str(e)\<close>: an
  \<^verbatim>\<open>ImportError\<close> (or a subclass of it), or any other instance of \<^verbatim>\<open>Exception\<close>. These
  are the two classes the \<^verbatim>\<open>except\<close> clauses of both scripts name. \<^verbatim>\<open>KeyboardInterrupt\<close>
  and \<^verbatim>\<open>SystemExit\<close> are no instances of \<^verbatim>\<open>Exception\<close> and are outside this type.
\<close>

datatype exn = ImportError string | OtherException string

datatype dtype = Float16 | Float32

type_synonym image = nat

record env =
  import_diffusers :: "exn option"
  import_torch :: "exn option"
  cuda_is_available :: "exn + bool"
  from_pretrained :: "string \<Rightarrow> dtype \<Rightarrow> string option \<Rightarrow> exn option"
  pipe_to :: "string \<Rightarrow> exn option"
  enable_attention_slicing :: "exn option"
  pipe_call :: "string \<Rightarrow> nat \<Rightarrow> real \<Rightarrow> exn + image list"
  time_now :: real
  makedirs :: "string \<Rightarrow> string set \<times> exn option"
  image_save :: "string \<Rightarrow> exn option"
  failed_save_leaves :: "string \<Rightarrow> image option \<Rightarrow> image option"
  environ :: "string \<rightharpoonup> string"

text \<open>
  What a run does is recorded in order: each \<^verbatim>\<open>print\<close> (one entry per call, to standard
  error or standard output), the trace \<^verbatim>\<open>traceback.print_exc\<close> writes, each call into
  the library or the file system, the start of the heartbeat thread and \<^verbatim>\<open>done.set()\<close>.
  The file system is the set of directories and the files with their content, as far as
  the scripts themselves write to it (the library's cache of model weights is the
  library's own);
  \<open>done_flag\<close> is the state of the installer's \<^verbatim>\<open>threading.Event\<close>.
\<close>

datatype event =
    Stderr string
  | Stdout string
  | Traceback exn
  | Setenv string string
  | FromPretrained string dtype "string option"
  | PipeTo string
  | EnableAttentionSlicing
  | PipeCall string nat real
  | Makedirs string
  | Save string image
  | ThreadStart
  | DoneSet

record world =
  trace :: "event list"
  dirs :: "string set"
  files :: "string \<rightharpoonup> image"
  done_flag :: bool

definition start :: "string set \<Rightarrow> (string \<rightharpoonup> image) \<Rightarrow> world" where
  "start D F = \<lparr>trace = [], dirs = D, files = F, done_flag = False\<rparr>"

fun is_stdout :: "event \<Rightarrow> bool" where
  "is_stdout (Stdout s) = True"
| "is_stdout ev = False"

fun is_traceback :: "event \<Rightarrow> bool" where
  "is_traceback (Traceback e) = True"
| "is_traceback ev = False"

fun is_load :: "event \<Rightarrow> bool" where
  "is_load (FromPretrained m dt token) = True"
| "is_load ev = False"

fun is_fs_call :: "event \<Rightarrow> bool" where
  "is_fs_call (Makedirs d) = True"
| "is_fs_call (Save p img) = True"
| "is_fs_call ev = False"

definition stdout_of :: "event list \<Rightarrow> event list" where
  "stdout_of t = filter is_stdout t"

text \<open>
  The characters on standard output: \<^verbatim>\<open>print\<close> writes its text and a line break. The
  lines of a text are its pieces between line breaks.
\<close>

definition newline :: char where
  "newline = CHR 0x0A"

fun printed :: "event \<Rightarrow> string" where
  "printed (Stdout s) = s @ [newline]"
| "printed ev = []"

definition stdout_text :: "event list \<Rightarrow> string" where
  "stdout_text t = concat (map printed (stdout_of t))"

fun lines_acc :: "string \<Rightarrow> string \<Rightarrow> string list" where
  "lines_acc cur [] = (if cur = [] then [] else [cur])"
| "lines_acc cur (c # cs) =
     (if c = newline then cur # lines_acc [] cs else lines_acc (cur @ [c]) cs)"

definition lines_of :: "string \<Rightarrow> string list" where
  "lines_of s = lines_acc [] s"

text \<open>
  A statement sequence under \<^verbatim>\<open>try\<close>: a step takes the world and gives an exception or a
  value, with the world it left. \<open>bnd\<close> runs the next step unless the first one raised.
\<close>

type_synonym 'a prog = "world \<Rightarrow> (exn + 'a) \<times> world"

definition ret :: "'a \<Rightarrow> 'a prog" where
  "ret x = (\<lambda>w. (Inr x, w))"

definition raise :: "exn \<Rightarrow> 'a prog" where
  "raise e = (\<lambda>w. (Inl e, w))"

definition bnd :: "'a prog \<Rightarrow> ('a \<Rightarrow> 'b prog) \<Rightarrow> 'b prog" where
  "bnd m f = (\<lambda>w. case m w of (Inl e, w') \<Rightarrow> (Inl e, w') | (Inr x, w') \<Rightarrow> f x w')"

definition emit :: "event \<Rightarrow> unit prog" where
  "emit ev = (\<lambda>w. (Inr (), w\<lparr>trace := trace w @ [ev]\<rparr>))"

definition lift :: "exn + 'a \<Rightarrow> 'a prog" where
  "lift r = (case r of Inl e \<Rightarrow> raise e | Inr x \<Rightarrow> ret x)"

definition outcome_of :: "exn option \<Rightarrow> unit prog" where
  "outcome_of r = (case r of None \<Rightarrow> ret () | Some e \<Rightarrow> raise e)"

text \<open>\<^verbatim>\<open>try: m finally: fin\<close>, for a \<^verbatim>\<open>finally\<close> block that does not raise.\<close>

definition try_finally :: "'a prog \<Rightarrow> (world \<Rightarrow> world) \<Rightarrow> 'a prog" where
  "try_finally m fin = (\<lambda>w. case m w of (r, w') \<Rightarrow> (r, fin w'))"

section \<open>Device, precision and the library calls\<close>

text \<open>
  \<^verbatim>\<open>device = "cpu" if use_cpu else ("cuda" if torch.cuda.is_available() else "cpu")\<close>
  and \<^verbatim>\<open>dtype = torch.float16 if device == "cuda" else torch.float32\<close>: the same two
  lines in generate\_image.py (20, 23) and install\_image\_model.py (49, 50). The
  availability is asked only when the CPU is not forced.
\<close>

definition select_device :: "exn + bool \<Rightarrow> bool \<Rightarrow> exn + string" where
  "select_device cuda use_cpu =
     (if use_cpu then Inr ''cpu''
      else (case cuda of
              Inl e \<Rightarrow> Inl e
            | Inr available \<Rightarrow> Inr (if available then ''cuda'' else ''cpu'')))"

definition select_dtype :: "string \<Rightarrow> dtype" where
  "select_dtype device = (if device = ''cuda'' then Float16 else Float32)"

definition load_pipeline :: "env \<Rightarrow> string \<Rightarrow> dtype \<Rightarrow> string option \<Rightarrow> unit prog" where
  "load_pipeline E model_name dt token =
     bnd (emit (FromPretrained model_name dt token)) (\<lambda>_.
     outcome_of (from_pretrained E model_name dt token))"

definition move_pipeline :: "env \<Rightarrow> string \<Rightarrow> unit prog" where
  "move_pipeline E device =
     bnd (emit (PipeTo device)) (\<lambda>_. outcome_of (pipe_to E device))"

definition attention_slicing :: "env \<Rightarrow> unit prog" where
  "attention_slicing E =
     bnd (emit EnableAttentionSlicing) (\<lambda>_. outcome_of (enable_attention_slicing E))"

text \<open>\<^verbatim>\<open>pipe(prompt, ...).images[0]\<close>: an empty list of images raises \<^verbatim>\<open>IndexError\<close>.\<close>

definition run_pipeline :: "env \<Rightarrow> string \<Rightarrow> nat \<Rightarrow> real \<Rightarrow> image prog" where
  "run_pipeline E prompt num_steps guidance =
     bnd (emit (PipeCall prompt num_steps guidance)) (\<lambda>_.
     (case pipe_call E prompt num_steps guidance of
        Inl e \<Rightarrow> raise e
      | Inr [] \<Rightarrow> raise (OtherException ''list index out of range'')
      | Inr (img # _) \<Rightarrow> ret img))"

text \<open>
  \<^verbatim>\<open>os.makedirs(output_dir, exist_ok=True)\<close>: the missing parents the call has made
  are there afterwards, whether it returns or raises; when it returns, the directory
  itself is there too.
\<close>

definition os_makedirs :: "env \<Rightarrow> string \<Rightarrow> unit prog" where
  "os_makedirs E d =
     bnd (emit (Makedirs d)) (\<lambda>_ w.
     (case snd (makedirs E d) of
        Some e \<Rightarrow> (Inl e, w\<lparr>dirs := dirs w \<union> fst (makedirs E d)\<rparr>)
      | None \<Rightarrow> (Inr (), w\<lparr>dirs := insert d (dirs w \<union> fst (makedirs E d))\<rparr>)))"

text \<open>
  \<^verbatim>\<open>image.save(output_path)\<close>: when it returns, the file holds the image, new or in
  place of a file of that name; when it raises, the path holds what the failed save has
  left there, and no other file is touched.
\<close>

definition save_image :: "env \<Rightarrow> string \<Rightarrow> image \<Rightarrow> unit prog" where
  "save_image E p img =
     bnd (emit (Save p img)) (\<lambda>_ w.
     (case image_save E p of
        Some e \<Rightarrow> (Inl e, w\<lparr>files := (files w)(p := failed_save_leaves E p (files w p))\<rparr>)
      | None \<Rightarrow> (Inr (), w\<lparr>files := (files w)(p \<mapsto> img)\<rparr>)))"

section \<open>The generator\<close>

text \<open>\<^verbatim>\<open>f"generated-{int(__import__('time').time())}.png"\<close>\<close>

definition output_name :: "real \<Rightarrow> string" where
  "output_name t = ''generated-'' @ show_int (py_int t) @ ''.png''"

text \<open>
  The \<^verbatim>\<open>try\<close> body of \<^verbatim>\<open>generate_image\<close> in two parts: lines 14 to 51, which end with
  the image the pipeline returned, and lines 53 to 58, which store it and print its path.
\<close>

definition produce_image :: "env \<Rightarrow> string \<Rightarrow> string \<Rightarrow> bool \<Rightarrow> image prog" where
  "produce_image E prompt model_name use_cpu =
     bnd (outcome_of (import_diffusers E)) (\<lambda>_.
     bnd (outcome_of (import_torch E)) (\<lambda>_.
     bnd (emit (Stderr (''Loading model: '' @ model_name))) (\<lambda>_.
     bnd (lift (select_device (cuda_is_available E) use_cpu)) (\<lambda>device.
     bnd (emit (Stderr (''Using device: '' @ device))) (\<lambda>_.
     bnd (load_pipeline E model_name (select_dtype device) None) (\<lambda>_.
     bnd (move_pipeline E device) (\<lambda>_.
     bnd (if device = ''cpu'' then attention_slicing E else ret ()) (\<lambda>_.
     bnd (emit (Stderr ''Generating image...'')) (\<lambda>_.
     run_pipeline E prompt (fst (sampling_params model_name))
       (snd (sampling_params model_name)))))))))))"

definition store_image :: "env \<Rightarrow> string \<Rightarrow> image \<Rightarrow> string prog" where
  "store_image E output_dir img =
     bnd (os_makedirs E output_dir) (\<lambda>_.
     bnd (ret (path_join output_dir (output_name (time_now E)))) (\<lambda>output_path.
     bnd (save_image E output_path img) (\<lambda>_.
     bnd (emit (Stdout (''IMAGE_PATH:'' @ output_path))) (\<lambda>_.
     ret output_path))))"

definition generate_body :: "env \<Rightarrow> string \<Rightarrow> string \<Rightarrow> string \<Rightarrow> bool \<Rightarrow> string prog" where
  "generate_body E prompt model_name output_dir use_cpu =
     bnd (produce_image E prompt model_name use_cpu) (store_image E output_dir)"

text \<open>
  How a run ends: the function returns, or \<^verbatim>\<open>sys.exit\<close> ends the process with a status.
  The two \<^verbatim>\<open>except\<close> clauses are the same in both scripts.
\<close>

datatype 'a outcome = Returned 'a | Exited nat

fun exit_status :: "'a outcome \<Rightarrow> nat" where
  "exit_status (Returned x) = 0"
| "exit_status (Exited n) = n"

definition report_failure :: "exn \<Rightarrow> world \<Rightarrow> 'a outcome \<times> world" where
  "report_failure e w =
     (case e of
        ImportError msg \<Rightarrow>
          (Exited 1,
           w\<lparr>trace := trace w @ [Stderr (''ERROR: Missing required library: '' @ msg)]\<rparr>)
      | OtherException msg \<Rightarrow>
          (Exited 1, w\<lparr>trace := trace w @ [Stderr (''ERROR: '' @ msg), Traceback e]\<rparr>))"

definition handle :: "'a prog \<Rightarrow> world \<Rightarrow> 'a outcome \<times> world" where
  "handle body w =
     (case body w of
        (Inr x, w') \<Rightarrow> (Returned x, w')
      | (Inl e, w') \<Rightarrow> report_failure e w')"

definition generate_image ::
  "env \<Rightarrow> string \<Rightarrow> string \<Rightarrow> string \<Rightarrow> bool \<Rightarrow> world \<Rightarrow> string outcome \<times> world" where
  "generate_image E prompt model_name output_dir use_cpu =
     handle (generate_body E prompt model_name output_dir use_cpu)"

text \<open>
  The script's main block, after \<^verbatim>\<open>argparse\<close> has given the four strings (the model
  and the flag with their defaults when absent).
\<close>

definition generator_main ::
  "env \<Rightarrow> string \<Rightarrow> string \<Rightarrow> string \<Rightarrow> string \<Rightarrow> world \<Rightarrow> string outcome \<times> world" where
  "generator_main E prompt_arg model_arg output_dir_arg use_cpu_arg =
     generate_image E prompt_arg model_arg output_dir_arg (parse_use_cpu use_cpu_arg)"

section \<open>The installer\<close>

definition en_dash :: string where
  "en_dash = [CHR 0xE2, CHR 0x80, CHR 0x93]"

definition size_note :: string where
  "size_note = ''First install is 4'' @ en_dash @ ''6GB+ and often takes 10'' @ en_dash @ ''30 min.''"

definition cancel_note :: string where
  "cancel_note =
     ''If it runs longer than 30 min with no change, cancel and retry (network may have stalled).''"

definition heartbeat_line :: "nat \<Rightarrow> string" where
  "heartbeat_line elapsed =
     ''  Still downloading... ('' @ show_nat elapsed @ ''s elapsed). Normal for 10'' @ en_dash
       @ ''30 min.''"

text \<open>
  \<^verbatim>\<open>progress_ping\<close>, the body of the heartbeat thread. The thread reads the event twice
  in each round: in the loop condition, and after \<^verbatim>\<open>done.wait(timeout=15)\<close>. The list is
  what these reads give, in order, as long as the thread is watched; the result is the
  lines printed and whether the function has returned.
\<close>

fun progress_ping :: "bool list \<Rightarrow> nat \<Rightarrow> string list \<times> bool" where
  "progress_ping [] count = ([], False)"
| "progress_ping [at_loop] count = ([], at_loop)"
| "progress_ping (at_loop # after_wait # reads) count =
     (if at_loop then ([], True)
      else if after_wait then ([], True)
      else (let r = progress_ping reads (count + 1)
            in (heartbeat_line ((count + 1) * 15) # fst r, snd r)))"

text \<open>
  \<^verbatim>\<open>token = os.environ.get("HF_TOKEN") or os.environ.get("HUGGING_FACE_HUB_TOKEN")\<close>,
  passed as \<^verbatim>\<open>token if token else None\<close>.
\<close>

definition py_or :: "string option \<Rightarrow> string option \<Rightarrow> string option" where
  "py_or a b = (case a of None \<Rightarrow> b | Some s \<Rightarrow> if s = [] then b else a)"

definition hf_token :: "env \<Rightarrow> string option" where
  "hf_token E =
     (let token = py_or (environ E ''HF_TOKEN'') (environ E ''HUGGING_FACE_HUB_TOKEN'')
      in case token of None \<Rightarrow> None | Some s \<Rightarrow> if s = [] then None else token)"

text \<open>Lines 49 to 61, the inner \<^verbatim>\<open>try\<close>; its \<^verbatim>\<open>finally\<close> is \<^verbatim>\<open>done.set()\<close>.\<close>

definition download_model :: "env \<Rightarrow> string \<Rightarrow> bool \<Rightarrow> unit prog" where
  "download_model E model_name use_cpu =
     bnd (lift (select_device (cuda_is_available E) use_cpu)) (\<lambda>device.
     load_pipeline E model_name (select_dtype device) (hf_token E))"

definition new_event :: "unit prog" where
  "new_event = (\<lambda>w. (Inr (), w\<lparr>done_flag := False\<rparr>))"

definition set_done :: "world \<Rightarrow> world" where
  "set_done w = w\<lparr>trace := trace w @ [DoneSet], done_flag := True\<rparr>"

definition install_body :: "env \<Rightarrow> string \<Rightarrow> string \<Rightarrow> unit prog" where
  "install_body E model_arg use_cpu_arg =
     bnd (outcome_of (import_diffusers E)) (\<lambda>_.
     bnd (outcome_of (import_torch E)) (\<lambda>_.
     bnd (ret model_arg) (\<lambda>model_name.
     bnd (ret (parse_use_cpu use_cpu_arg)) (\<lambda>use_cpu.
     bnd (emit (Stderr (''Downloading model: '' @ model_name))) (\<lambda>_.
     bnd (emit (Stderr size_note)) (\<lambda>_.
     bnd (emit (Stderr cancel_note)) (\<lambda>_.
     bnd new_event (\<lambda>_.
     bnd (emit ThreadStart) (\<lambda>_.
     bnd (try_finally (download_model E model_name use_cpu) set_done) (\<lambda>_.
     bnd (emit (Stderr (''Model installed successfully: '' @ model_name))) (\<lambda>_.
     emit (Stdout ''INSTALL_OK''))))))))))))"

text \<open>
  The script from its first statement: line 15 sets the environment variable that turns
  the library's progress bars off, then \<^verbatim>\<open>main\<close> runs with the two strings
  \<^verbatim>\<open>argparse\<close> has given.
\<close>

definition disable_progress_bars :: "world \<Rightarrow> world" where
  "disable_progress_bars w =
     w\<lparr>trace := trace w @ [Setenv ''HF_HUB_DISABLE_PROGRESS_BARS'' ''1'']\<rparr>"

definition installer_main :: "env \<Rightarrow> string \<Rightarrow> string \<Rightarrow> world \<Rightarrow> unit outcome \<times> world" where
  "installer_main E model_arg use_cpu_arg w =
     handle (install_body E model_arg use_cpu_arg) (disable_progress_bars w)"

fun is_report :: "event \<Rightarrow> bool" where
  "is_report (Stderr s) = True"
| "is_report (Stdout s) = True"
| "is_report (Traceback e) = True"
| "is_report ev = False"

section \<open>Concrete worlds\<close>

text \<open>
  A machine without accelerator where every call succeeds, at time 1700000000.5; the same
  machine with a disk that refuses the file and leaves nothing at its path; one where
  \<^verbatim>\<open>os.makedirs\<close> makes the parent \<^verbatim>\<open>np\<close> and then raises; one without the diffusers
  package; one where the download fails.
\<close>

definition env_ok :: env where
  "env_ok = \<lparr>import_diffusers = None, import_torch = None, cuda_is_available = Inr False,
     from_pretrained = (\<lambda>_ _ _. None), pipe_to = (\<lambda>_. None), enable_attention_slicing = None,
     pipe_call = (\<lambda>_ _ _. Inr [7]), time_now = 3400000001 / 2, makedirs = (\<lambda>_. ({}, None)),
     image_save = (\<lambda>_. None), failed_save_leaves = (\<lambda>_ _. None), environ = Map.empty\<rparr>"

definition env_save_fails :: env where
  "env_save_fails = env_ok\<lparr>image_save := (\<lambda>_. Some (OtherException ''No space left on device''))\<rparr>"

definition env_makedirs_fails :: env where
  "env_makedirs_fails =
     env_ok\<lparr>makedirs := (\<lambda>_. ({''np''}, Some (OtherException ''File name too long'')))\<rparr>"

definition env_no_diffusers :: env where
  "env_no_diffusers = env_ok\<lparr>import_diffusers := Some (ImportError ''No module named diffusers'')\<rparr>"

definition env_load_fails :: env where
  "env_load_fails = env_ok\<lparr>from_pretrained := (\<lambda>_ _ _. Some (OtherException ''Connection reset''))\<rparr>"

section \<open>Facts about the string operations\<close>

lemma str_in_iff: "str_in sub s \<longleftrightarrow> (\<exists>pre suf. s = pre @ sub @ suf)"
proof (induction s)
  case Nil
  then show ?case by auto
next
  case (Cons c cs)
  show ?case
  proof
    assume "str_in sub (c # cs)"
    then consider "prefix sub (c # cs)" | "str_in sub cs" by auto
    then show "\<exists>pre suf. c # cs = pre @ sub @ suf"
    proof cases
      case 1
      then obtain suf where "c # cs = sub @ suf" by (auto simp: prefix_def)
      then have "c # cs = [] @ sub @ suf" by simp
      then show ?thesis by blast
    next
      case 2
      with Cons.IH obtain pre suf where "cs = pre @ sub @ suf" by auto
      then have "c # cs = (c # pre) @ sub @ suf" by simp
      then show ?thesis by blast
    qed
  next
    assume "\<exists>pre suf. c # cs = pre @ sub @ suf"
    then obtain pre suf where eq: "c # cs = pre @ sub @ suf" by auto
    show "str_in sub (c # cs)"
    proof (cases pre)
      case Nil
      with eq have "prefix sub (c # cs)" by (simp add: prefix_def)
      then show ?thesis by simp
    next
      case (Cons p ps)
      with eq have "cs = ps @ sub @ suf" by simp
      with Cons.IH have "str_in sub cs" by blast
      then show ?thesis by simp
    qed
  qed
qed

lemma str_in_lower_iff: "str_in w (lower s) \<longleftrightarrow> contains_ci w s"
proof
  assume "str_in w (lower s)"
  then obtain pre suf where "map lower_char s = pre @ w @ suf"
    unfolding str_in_iff lower_def by blast
  then have "map lower_char s = pre @ (w @ suf)" by simp
  from this[unfolded map_eq_append_conv] obtain a r
    where s1: "s = a @ r" and r0: "w @ suf = map lower_char r" by blast
  from r0 have "map lower_char r = w @ suf" by simp
  from this[unfolded map_eq_append_conv] obtain b c
    where s2: "r = b @ c" and b0: "w = map lower_char b" by blast
  from b0 have b: "map lower_char b = w" by simp
  from s1 s2 b show "contains_ci w s"
    unfolding contains_ci_def lower_def by blast
next
  assume "contains_ci w s"
  then obtain pre mid suf where "s = pre @ mid @ suf" and "lower mid = w"
    unfolding contains_ci_def by blast
  then have "lower s = lower pre @ w @ lower suf"
    by (auto simp: lower_def)
  then show "str_in w (lower s)"
    unfolding str_in_iff by blast
qed

lemma lower_char_eq_lower:
  assumes "97 \<le> (of_char k :: nat)" and "(of_char k :: nat) \<le> 122"
  shows "lower_char c = k \<longleftrightarrow> c = k \<or> of_char c + 32 = (of_char k :: nat)"
proof (cases "65 \<le> (of_char c :: nat) \<and> (of_char c :: nat) \<le> 90")
  case True
  then have lc: "lower_char c = char_of (of_char c + 32 :: nat)"
    by (simp add: lower_char_def)
  have "of_char (char_of (of_char c + 32 :: nat)) = (of_char c + 32 :: nat)"
    using True by simp
  then have "char_of (of_char c + 32 :: nat) = k \<longleftrightarrow> of_char c + 32 = (of_char k :: nat)"
    by (metis char_of_char)
  moreover have "c \<noteq> k" using True assms by auto
  ultimately show ?thesis using lc by simp
next
  case False
  then have "lower_char c = c" by (auto simp: lower_char_def Let_def)
  moreover have "of_char c + 32 \<noteq> (of_char k :: nat)"
  proof
    assume e: "of_char c + 32 = (of_char k :: nat)"
    with assms False show False by linarith
  qed
  ultimately show ?thesis by simp
qed

lemma of_char_eq_num: "(of_char c :: nat) = of_char k \<longleftrightarrow> c = k"
  by simp

lemma lower_char_t: "lower_char c = CHR ''t'' \<longleftrightarrow> c = CHR ''t'' \<or> c = CHR ''T''"
  using lower_char_eq_lower[of "CHR ''t''" c] of_char_eq_num[of c "CHR ''T''"] by simp

lemma lower_char_r: "lower_char c = CHR ''r'' \<longleftrightarrow> c = CHR ''r'' \<or> c = CHR ''R''"
  using lower_char_eq_lower[of "CHR ''r''" c] of_char_eq_num[of c "CHR ''R''"] by simp

lemma lower_char_u: "lower_char c = CHR ''u'' \<longleftrightarrow> c = CHR ''u'' \<or> c = CHR ''U''"
  using lower_char_eq_lower[of "CHR ''u''" c] of_char_eq_num[of c "CHR ''U''"] by simp

lemma lower_char_e: "lower_char c = CHR ''e'' \<longleftrightarrow> c = CHR ''e'' \<or> c = CHR ''E''"
  using lower_char_eq_lower[of "CHR ''e''" c] of_char_eq_num[of c "CHR ''E''"] by simp

lemma map_eq_four: "map f s = [w, x, y, z] \<longleftrightarrow>
    (\<exists>a b c d. s = [a, b, c, d] \<and> f a = w \<and> f b = x \<and> f c = y \<and> f d = z)"
  by (auto simp: map_eq_Cons_conv)

section \<open>The claims about argument handling and the presets\<close>

text \<open>
  C1. The classification of the model identifier depends on the identifier string alone.
  An identifier that contains "turbo" in any letter case yields 4 steps and guidance 1.0,
  also when it contains "xl" as well; one that contains "xl" or "sdxl" in any letter case
  and not "turbo" yields 30 steps and guidance 7.5; every other identifier yields 25
  steps and guidance 7.5.
\<close>

theorem sampling_params_classification:
  "sampling_params m =
     (if contains_ci ''turbo'' m then (4, 1)
      else if contains_ci ''xl'' m \<or> contains_ci ''sdxl'' m then (30, 15 / 2)
      else (25, 15 / 2))"
  by (simp add: sampling_params_def str_in_lower_iff)

theorem sampling_params_classification_witness:
  "sampling_params ''stabilityai/SDXL-Turbo'' = (4, 1)"
proof -
  have "''stabilityai/SDXL-Turbo'' = ''stabilityai/SDXL-'' @ ''Turbo'' @ []" by simp
  moreover have "lower ''Turbo'' = ''turbo''" by code_simp
  ultimately have "contains_ci ''turbo'' ''stabilityai/SDXL-Turbo''"
    unfolding contains_ci_def by blast
  then show ?thesis
    using sampling_params_classification [of "''stabilityai/SDXL-Turbo''"] by simp
qed

lemma sampling_params_examples:
  "sampling_params ''sd-turbo'' = (4, 1)"
  "sampling_params ''stabilityai/sdxl-base'' = (30, 15 / 2)"
  "sampling_params ''runwayml/stable-diffusion-v1-5'' = (25, 15 / 2)"
  by (simp_all add: sampling_params_def lower_def lower_char_def)

text \<open>
  C9. In both entry points the flag forces the CPU exactly when its lowercased value is
  "true", that is, when it is the four letters t, r, u, e in any letter case. Every other
  string is read as false: the function is total, nothing is rejected.
\<close>

theorem parse_use_cpu_iff_true:
  "(parse_use_cpu s \<longleftrightarrow> lower s = ''true'') \<and>
   (parse_use_cpu s \<longleftrightarrow>
      (\<exists>a b c d. s = [a, b, c, d] \<and> (a = CHR ''t'' \<or> a = CHR ''T'') \<and>
         (b = CHR ''r'' \<or> b = CHR ''R'') \<and> (c = CHR ''u'' \<or> c = CHR ''U'') \<and>
         (d = CHR ''e'' \<or> d = CHR ''E'')))"
  unfolding parse_use_cpu_def lower_def map_eq_four
    lower_char_t lower_char_r lower_char_u lower_char_e
  by simp

theorem parse_use_cpu_iff_true_witness:
  "\<not> parse_use_cpu ''1'' \<and> \<not> parse_use_cpu ''yes'' \<and> \<not> parse_use_cpu ''True '' \<and>
   \<not> parse_use_cpu [] \<and> parse_use_cpu ''true'' \<and> parse_use_cpu ''True'' \<and>
   parse_use_cpu ''TRUE''"
  using parse_use_cpu_iff_true [of "''1''", THEN conjunct2]
    parse_use_cpu_iff_true [of "''yes''", THEN conjunct2]
    parse_use_cpu_iff_true [of "''True ''", THEN conjunct2]
    parse_use_cpu_iff_true [of "[]", THEN conjunct2]
    parse_use_cpu_iff_true [of "''true''", THEN conjunct2]
    parse_use_cpu_iff_true [of "''True''", THEN conjunct2]
    parse_use_cpu_iff_true [of "''TRUE''", THEN conjunct2]
  by simp

section \<open>Facts about the runs\<close>

lemmas step_defs = ret_def raise_def bnd_def emit_def outcome_of_def lift_def try_finally_def

lemmas call_defs = load_pipeline_def move_pipeline_def attention_slicing_def
  run_pipeline_def os_makedirs_def save_image_def

lemma show_nat_1700000000: "show_nat 1700000000 = ''1700000000''"
  by (simp add: show_nat.simps digit_char_def)


lemma output_name_example: "output_name (3400000001 / 2) = ''generated-1700000000.png''"
  unfolding output_name_def py_int_def show_int_def by (simp add: show_nat_1700000000)

lemma parse_use_cpu_false: "\<not> parse_use_cpu ''false''"
  by (simp add: parse_use_cpu_def lower_def)

lemma isabs_path_join: "isabs (path_join d (output_name t)) \<longleftrightarrow> isabs d"
  by (cases d) (auto simp: path_join_def isabs_def output_name_def)

lemma produce_image_quiet:
  assumes "produce_image E p m c w = (r, w')"
  shows "dirs w' = dirs w \<and> files w' = files w \<and> done_flag w' = done_flag w \<and>
    filter is_stdout (trace w') = filter is_stdout (trace w) \<and>
    filter is_traceback (trace w') = filter is_traceback (trace w) \<and>
    filter is_fs_call (trace w') = filter is_fs_call (trace w) \<and>
    prefix (trace w) (trace w')"
  using assms
  by (auto simp: step_defs call_defs produce_image_def
      split: option.splits sum.splits if_splits list.splits)

lemma store_image_result:
  assumes "store_image E d img w = (r, w')"
  shows "filter is_traceback (trace w') = filter is_traceback (trace w) \<and>
    prefix (trace w) (trace w') \<and>
    (case r of
       Inr path \<Rightarrow> path = path_join d (output_name (time_now E)) \<and>
         snd (makedirs E d) = None \<and> image_save E path = None \<and>
         trace w' = trace w @ [Makedirs d, Save path img, Stdout (''IMAGE_PATH:'' @ path)] \<and>
         dirs w' = insert d (dirs w \<union> fst (makedirs E d)) \<and>
         files w' = (files w)(path \<mapsto> img)
     | Inl e \<Rightarrow> filter is_stdout (trace w') = filter is_stdout (trace w) \<and>
         (case snd (makedirs E d) of
            Some e' \<Rightarrow> e = e' \<and> dirs w' = dirs w \<union> fst (makedirs E d) \<and>
              files w' = files w \<and> trace w' = trace w @ [Makedirs d]
          | None \<Rightarrow> image_save E (path_join d (output_name (time_now E))) = Some e \<and>
              dirs w' = insert d (dirs w \<union> fst (makedirs E d)) \<and>
              files w' = (files w)(path_join d (output_name (time_now E)) :=
                failed_save_leaves E (path_join d (output_name (time_now E)))
                  (files w (path_join d (output_name (time_now E))))) \<and>
              trace w' =
                trace w @ [Makedirs d, Save (path_join d (output_name (time_now E))) img]))"
  using assms
  by (auto simp: step_defs call_defs store_image_def split: option.splits sum.splits)

lemma lines_acc_single: "newline \<notin> set s \<Longrightarrow> lines_acc cur (s @ [newline]) = [cur @ s]"
  by (induction s arbitrary: cur) auto

lemma digit_char_no_newline: "k < 10 \<Longrightarrow> newline \<noteq> digit_char k"
proof -
  assume "k < 10"
  then have "''0123456789'' ! k \<in> set ''0123456789''" by (intro nth_mem) simp
  then show ?thesis by (auto simp: digit_char_def newline_def)
qed

lemma show_nat_no_newline: "newline \<notin> set (show_nat n)"
proof (induction n rule: show_nat.induct)
  case (1 n)
  show ?case
  proof (cases "n < 10")
    case True
    then show ?thesis by (simp add: show_nat.simps [of n] digit_char_no_newline)
  next
    case False
    with 1 show ?thesis by (simp add: show_nat.simps [of n] digit_char_no_newline)
  qed
qed

lemma path_join_no_newline:
  assumes "newline \<notin> set d"
  shows "newline \<notin> set (path_join d (output_name t))"
proof -
  have "newline \<notin> set (output_name t)"
    using show_nat_no_newline by (auto simp: output_name_def show_int_def newline_def)
  with assms show ?thesis by (auto simp: path_join_def newline_def)
qed

lemma one_line:
  assumes "newline \<notin> set d"
  shows "lines_of ((''IMAGE_PATH:'' @ path_join d (output_name t)) @ [newline]) =
    [''IMAGE_PATH:'' @ path_join d (output_name t)]"
proof -
  from path_join_no_newline [OF assms]
  have "newline \<notin> set (''IMAGE_PATH:'' @ path_join d (output_name t))"
    by (auto simp: newline_def)
  from lines_acc_single [OF this, of "[]"] show ?thesis by (simp add: lines_of_def)
qed

lemma time_now_env_ok: "time_now env_ok = 3400000001 / 2"
  by (simp add: env_ok_def)

lemma run_ok:
  "generator_main env_ok ''a cat'' ''sd-turbo'' ''out'' ''false'' (start {} Map.empty) =
     (Returned ''out/generated-1700000000.png'',
      \<lparr>trace = [Stderr ''Loading model: sd-turbo'', Stderr ''Using device: cpu'',
         FromPretrained ''sd-turbo'' Float32 None, PipeTo ''cpu'', EnableAttentionSlicing,
         Stderr ''Generating image...'', PipeCall ''a cat'' 4 1, Makedirs ''out'',
         Save ''out/generated-1700000000.png'' 7,
         Stdout ''IMAGE_PATH:out/generated-1700000000.png''],
       dirs = {''out''}, files = [''out/generated-1700000000.png'' \<mapsto> 7],
       done_flag = False\<rparr>)"
  by (simp add: generator_main_def generate_image_def handle_def generate_body_def
      produce_image_def store_image_def step_defs call_defs env_ok_def start_def
      select_device_def select_dtype_def output_name_example path_join_def
      sampling_params_examples parse_use_cpu_false)

lemma run_line_break:
  "generator_main env_ok ''a cat'' ''sd-turbo'' [CHR ''o'', CHR 0x0A, CHR ''p''] ''false''
      (start {} Map.empty) =
     (Returned ([CHR ''o'', CHR 0x0A] @ ''p/generated-1700000000.png''),
      \<lparr>trace = [Stderr ''Loading model: sd-turbo'', Stderr ''Using device: cpu'',
         FromPretrained ''sd-turbo'' Float32 None, PipeTo ''cpu'', EnableAttentionSlicing,
         Stderr ''Generating image...'', PipeCall ''a cat'' 4 1,
         Makedirs [CHR ''o'', CHR 0x0A, CHR ''p''],
         Save ([CHR ''o'', CHR 0x0A] @ ''p/generated-1700000000.png'') 7,
         Stdout (''IMAGE_PATH:o'' @ [CHR 0x0A] @ ''p/generated-1700000000.png'')],
       dirs = {[CHR ''o'', CHR 0x0A, CHR ''p'']},
       files = [[CHR ''o'', CHR 0x0A] @ ''p/generated-1700000000.png'' \<mapsto> 7],
       done_flag = False\<rparr>)"
  by (simp add: generator_main_def generate_image_def handle_def generate_body_def
      produce_image_def store_image_def step_defs call_defs env_ok_def start_def
      select_device_def select_dtype_def output_name_example path_join_def
      sampling_params_examples parse_use_cpu_false)


lemma generator_main_split:
  assumes "generator_main E p m d u w0 = (out, w)"
  obtains e w1 where "produce_image E p m (parse_use_cpu u) w0 = (Inl e, w1)"
      and "(out, w) = report_failure e w1"
  | img w1 e w2 where "produce_image E p m (parse_use_cpu u) w0 = (Inr img, w1)"
      and "store_image E d img w1 = (Inl e, w2)" and "(out, w) = report_failure e w2"
  | img w1 path where "produce_image E p m (parse_use_cpu u) w0 = (Inr img, w1)"
      and "store_image E d img w1 = (Inr path, w)" and "out = Returned path"
  using assms
  by (auto simp: generator_main_def generate_image_def handle_def generate_body_def bnd_def
      split: prod.splits sum.splits)

lemma report_failure_result:
  assumes "(out, w) = report_failure e w1"
  shows "out = Exited 1 \<and> dirs w = dirs w1 \<and> files w = files w1 \<and>
    done_flag w = done_flag w1 \<and>
    filter is_stdout (trace w) = filter is_stdout (trace w1) \<and>
    filter is_fs_call (trace w) = filter is_fs_call (trace w1) \<and>
    filter is_load (trace w) = filter is_load (trace w1) \<and>
    prefix (trace w1) (trace w)"
  using assms by (cases e) (auto simp: report_failure_def)

lemma hf_token_env_ok: "hf_token env_ok = None"
  by (simp add: hf_token_def py_or_def env_ok_def)

lemma install_ok:
  "installer_main env_ok ''sd-turbo'' ''false'' (start {} Map.empty) =
     (Returned (),
      \<lparr>trace = [Setenv ''HF_HUB_DISABLE_PROGRESS_BARS'' ''1'',
         Stderr ''Downloading model: sd-turbo'', Stderr size_note, Stderr cancel_note,
         ThreadStart, FromPretrained ''sd-turbo'' Float32 None, DoneSet,
         Stderr ''Model installed successfully: sd-turbo'', Stdout ''INSTALL_OK''],
       dirs = {}, files = Map.empty, done_flag = True\<rparr>)"
  by (simp add: installer_main_def handle_def install_body_def download_model_def
      disable_progress_bars_def new_event_def set_done_def load_pipeline_def step_defs
      hf_token_def py_or_def select_device_def select_dtype_def parse_use_cpu_false start_def
      env_ok_def)

lemma install_load_fails:
  "installer_main env_load_fails ''sd-turbo'' ''false'' (start {} Map.empty) =
     (Exited 1,
      \<lparr>trace = [Setenv ''HF_HUB_DISABLE_PROGRESS_BARS'' ''1'',
         Stderr ''Downloading model: sd-turbo'', Stderr size_note, Stderr cancel_note,
         ThreadStart, FromPretrained ''sd-turbo'' Float32 None, DoneSet,
         Stderr ''ERROR: Connection reset'', Traceback (OtherException ''Connection reset'')],
       dirs = {}, files = Map.empty, done_flag = True\<rparr>)"
  by (simp add: installer_main_def handle_def install_body_def download_model_def
      disable_progress_bars_def new_event_def set_done_def load_pipeline_def step_defs
      hf_token_def py_or_def select_device_def select_dtype_def parse_use_cpu_false start_def
      report_failure_def env_load_fails_def env_ok_def)

lemmas installer_defs = installer_main_def handle_def install_body_def download_model_def
  disable_progress_bars_def new_event_def set_done_def load_pipeline_def report_failure_def

lemma generate_body_failure_quiet:
  assumes "generate_body E p m d c (start D F) = (Inl e, w)"
  shows "stdout_of (trace w) = [] \<and> filter is_traceback (trace w) = []"
proof -
  obtain r1 w1 where p1: "produce_image E p m c (start D F) = (r1, w1)"
    by (cases "produce_image E p m c (start D F)")
  show ?thesis
  proof (cases r1)
    case (Inl e1)
    with p1 assms have "w = w1" by (simp add: generate_body_def bnd_def)
    with produce_image_quiet[OF p1] show ?thesis by (simp add: stdout_of_def start_def)
  next
    case (Inr img)
    with p1 assms have s: "store_image E d img w1 = (Inl e, w)"
      by (simp add: generate_body_def bnd_def)
    from produce_image_quiet[OF p1] store_image_result[OF s]
    show ?thesis by (simp add: stdout_of_def start_def)
  qed
qed

lemma install_body_failure_quiet:
  assumes "install_body E m u (disable_progress_bars (start D F)) = (Inl e, w)"
  shows "stdout_of (trace w) = [] \<and> filter is_traceback (trace w) = []"
  using assms
  by (auto simp: installer_defs step_defs start_def stdout_of_def
      split: option.splits sum.splits)

lemma generate_load_fails:
  "generate_body env_load_fails ''a cat'' ''sd-turbo'' ''out'' (parse_use_cpu ''false'')
      (start {} Map.empty) =
     (Inl (OtherException ''Connection reset''),
      \<lparr>trace = [Stderr ''Loading model: sd-turbo'', Stderr ''Using device: cpu'',
         FromPretrained ''sd-turbo'' Float32 None],
       dirs = {}, files = Map.empty, done_flag = False\<rparr>)"
  by (simp add: generate_body_def produce_image_def step_defs call_defs start_def
      select_device_def select_dtype_def parse_use_cpu_false env_load_fails_def env_ok_def)

lemma install_body_load_fails:
  "install_body env_load_fails ''sd-turbo'' ''false''
      (disable_progress_bars (start {} Map.empty)) =
     (Inl (OtherException ''Connection reset''),
      \<lparr>trace = [Setenv ''HF_HUB_DISABLE_PROGRESS_BARS'' ''1'',
         Stderr ''Downloading model: sd-turbo'', Stderr size_note, Stderr cancel_note,
         ThreadStart, FromPretrained ''sd-turbo'' Float32 None, DoneSet],
       dirs = {}, files = Map.empty, done_flag = True\<rparr>)"
  by (simp add: install_body_def download_model_def
      disable_progress_bars_def new_event_def set_done_def load_pipeline_def step_defs
      hf_token_def py_or_def select_device_def select_dtype_def parse_use_cpu_false start_def
      env_load_fails_def env_ok_def)

lemma generate_body_no_diffusers:
  "generate_body env_no_diffusers ''a cat'' ''sd-turbo'' ''out'' (parse_use_cpu ''false'')
      (start {} Map.empty) =
     (Inl (ImportError ''No module named diffusers''), start {} Map.empty)"
  by (simp add: generate_body_def produce_image_def step_defs env_no_diffusers_def env_ok_def)

lemma install_body_no_diffusers:
  "install_body env_no_diffusers ''sd-turbo'' ''false''
      (disable_progress_bars (start {} Map.empty)) =
     (Inl (ImportError ''No module named diffusers''),
      disable_progress_bars (start {} Map.empty))"
  by (simp add: install_body_def step_defs env_no_diffusers_def env_ok_def)

lemma progress_ping_stops:
  "snd (progress_ping (replicate n False @ True # reads) c)"
proof (induction n arbitrary: c rule: less_induct)
  case (less n)
  show ?case
  proof (cases n)
    case 0
    then show ?thesis by (cases reads) simp_all
  next
    case (Suc k)
    show ?thesis
    proof (cases k)
      case 0
      with Suc show ?thesis by simp
    next
      case (Suc j)
      with \<open>n = Suc k\<close> less.IH[of j "c + 1"] show ?thesis by (simp add: Let_def)
    qed
  qed
qed

lemma installer_thread_started:
  assumes "installer_main E m u (start D F) = (out, w)"
  shows "ThreadStart \<in> set (trace w) \<longleftrightarrow> import_diffusers E = None \<and> import_torch E = None"
  using assms
  by (auto simp: installer_defs step_defs start_def
      split: option.splits sum.splits exn.splits)

lemma installer_trace:
  assumes "installer_main E m u (start D F) = (out, w)"
    and "import_diffusers E = None" and "import_torch E = None"
  shows "done_flag w \<and>
    (\<exists>fin. trace w =
        [Setenv ''HF_HUB_DISABLE_PROGRESS_BARS'' ''1'', Stderr (''Downloading model: '' @ m),
         Stderr size_note, Stderr cancel_note, ThreadStart] @
        (case select_device (cuda_is_available E) (parse_use_cpu u) of
           Inl e \<Rightarrow> []
         | Inr device \<Rightarrow> [FromPretrained m (select_dtype device) (hf_token E)]) @
        DoneSet # fin \<and>
      list_all is_report fin)"
  using assms
  by (auto simp: installer_defs step_defs start_def
      split: option.splits sum.splits exn.splits)

lemma produce_image_device:
  assumes "produce_image E p m c w = (r, w')"
    and "import_diffusers E = None" and "import_torch E = None"
    and "select_device (cuda_is_available E) c = Inr device"
  shows "filter is_load (trace w') =
      filter is_load (trace w) @ [FromPretrained m (select_dtype device) None] \<and>
    Stderr (''Using device: '' @ device) \<in> set (trace w')"
  using assms
  by (auto simp: step_defs call_defs produce_image_def
      split: option.splits sum.splits if_splits list.splits)

lemma store_image_loads:
  assumes "store_image E d img w = (r, w')"
  shows "filter is_load (trace w') = filter is_load (trace w)"
  using store_image_result [OF assms]
  by (cases r) (auto split: option.splits)

lemma generator_device:
  assumes "generator_main E p m d u (start D F) = (out, w)"
    and "import_diffusers E = None" and "import_torch E = None"
    and "select_device (cuda_is_available E) (parse_use_cpu u) = Inr device"
  shows "filter is_load (trace w) = [FromPretrained m (select_dtype device) None] \<and>
    Stderr (''Using device: '' @ device) \<in> set (trace w)"
  using assms(1)
proof (cases rule: generator_main_split)
  case (1 e w1)
  from report_failure_result [OF 1(2)] have "prefix (trace w1) (trace w)" by simp
  then have "set (trace w1) \<subseteq> set (trace w)" by (rule set_mono_prefix)
  with produce_image_device [OF 1(1) assms(2-4)] report_failure_result [OF 1(2)]
  show ?thesis by (auto simp: start_def)
next
  case (2 img w1 e w2)
  from store_image_result [OF 2(2)] have "prefix (trace w1) (trace w2)" by simp
  moreover from report_failure_result [OF 2(3)] have "prefix (trace w2) (trace w)" by simp
  ultimately have "set (trace w1) \<subseteq> set (trace w2)"
    and "set (trace w2) \<subseteq> set (trace w)"
    by (simp_all add: set_mono_prefix)
  with produce_image_device [OF 2(1) assms(2-4)] store_image_loads [OF 2(2)]
    report_failure_result [OF 2(3)]
  show ?thesis by (auto simp: start_def)
next
  case (3 img w1 path)
  from store_image_result [OF 3(2)] have "prefix (trace w1) (trace w)" by simp
  then have "set (trace w1) \<subseteq> set (trace w)" by (rule set_mono_prefix)
  with produce_image_device [OF 3(1) assms(2-4)] store_image_loads [OF 3(2)]
  show ?thesis by (auto simp: start_def)
qed

lemma installer_loads:
  assumes "installer_main E m u (start D F) = (out, w)"
    and "import_diffusers E = None" and "import_torch E = None"
    and "select_device (cuda_is_available E) (parse_use_cpu u) = Inr device"
  shows "filter is_load (trace w) = [FromPretrained m (select_dtype device) (hf_token E)]"
  using assms
  by (auto simp: installer_defs step_defs start_def
      split: option.splits sum.splits exn.splits)

section \<open>The claims about the generator's output and files\<close>

text \<open>
  C2, as amended. A run of the generator that succeeds prints exactly once to standard
  output: the text \<^verbatim>\<open>IMAGE_PATH:\<close>, the path of the image file it has written, and a
  line break. The path is the output-directory argument joined with the file name: it is
  absolute exactly when the output-directory argument is absolute, and what is printed is
  exactly one line when the output-directory argument contains no line break. A run that
  fails writes nothing to standard output.
\<close>

theorem generator_stdout_line:
  assumes "generator_main E p m d u (start D F) = (out, w)"
  shows "case out of
           Returned path \<Rightarrow>
             stdout_of (trace w) = [Stdout (''IMAGE_PATH:'' @ path)] \<and>
             stdout_text (trace w) = (''IMAGE_PATH:'' @ path) @ [newline] \<and>
             (newline \<notin> set d \<longrightarrow>
                lines_of (stdout_text (trace w)) = [''IMAGE_PATH:'' @ path]) \<and>
             path = path_join d (output_name (time_now E)) \<and>
             (\<exists>img. files w path = Some img \<and> Save path img \<in> set (trace w)) \<and>
             (isabs path \<longleftrightarrow> isabs d)
         | Exited n \<Rightarrow> stdout_of (trace w) = [] \<and> stdout_text (trace w) = []"
  using assms
proof (cases rule: generator_main_split)
  case (1 e w1)
  from produce_image_quiet[OF 1(1)] report_failure_result[OF 1(2)]
  show ?thesis by (simp add: stdout_text_def stdout_of_def start_def)
next
  case (2 img w1 e w2)
  from produce_image_quiet[OF 2(1)] store_image_result[OF 2(2)] report_failure_result[OF 2(3)]
  show ?thesis by (simp add: stdout_text_def stdout_of_def start_def)
next
  case (3 img w1 path)
  have one: "newline \<notin> set d \<longrightarrow>
      lines_of ((''IMAGE_PATH:'' @ path_join d (output_name (time_now E))) @ [newline]) =
        [''IMAGE_PATH:'' @ path_join d (output_name (time_now E))]"
    using one_line by blast
  from produce_image_quiet[OF 3(1)] store_image_result[OF 3(2)] 3(3) one
  show ?thesis
    by (simp add: stdout_text_def stdout_of_def start_def isabs_path_join)
qed

theorem generator_stdout_line_witness:
  "stdout_of (trace (snd (generator_main env_ok ''a cat'' ''sd-turbo'' ''out'' ''false''
      (start {} Map.empty)))) = [Stdout ''IMAGE_PATH:out/generated-1700000000.png''] \<and>
   lines_of (stdout_text (trace (snd (generator_main env_ok ''a cat'' ''sd-turbo'' ''out''
      ''false'' (start {} Map.empty))))) = [''IMAGE_PATH:out/generated-1700000000.png'']"
proof -
  have "newline \<notin> set ''out''" by (simp add: newline_def)
  with generator_stdout_line [OF run_ok] show ?thesis
    by (simp add: run_ok time_now_env_ok output_name_example path_join_def
        stdout_of_def stdout_text_def lines_of_def newline_def)
qed

text \<open>
  The claim as stated says the printed path is absolute, and that what is printed is one
  line. With the relative output directory \<^verbatim>\<open>out\<close> the run succeeds and prints a
  relative path; with an output directory whose name has a line break in it (between
  \<^verbatim>\<open>o\<close> and \<^verbatim>\<open>p\<close>) the run succeeds and what it prints is two lines.
\<close>

theorem image_path_not_absolute:
  "fst (generator_main env_ok ''a cat'' ''sd-turbo'' ''out'' ''false'' (start {} Map.empty)) =
     Returned ''out/generated-1700000000.png'' \<and>
   stdout_of (trace (snd (generator_main env_ok ''a cat'' ''sd-turbo'' ''out'' ''false''
      (start {} Map.empty)))) = [Stdout ''IMAGE_PATH:out/generated-1700000000.png''] \<and>
   \<not> isabs ''out/generated-1700000000.png'' \<and>
   lines_of (stdout_text (trace (snd (generator_main env_ok ''a cat'' ''sd-turbo''
      [CHR ''o'', CHR 0x0A, CHR ''p''] ''false'' (start {} Map.empty))))) =
     [''IMAGE_PATH:o'', ''p/generated-1700000000.png'']"
  by (simp add: run_ok run_line_break stdout_text_def stdout_of_def isabs_def lines_of_def
      newline_def)




text \<open>
  C10, as amended. The generator touches the file system only after the pipeline has
  returned an image: lines 14 to 51 make no file-system call and leave directories and
  files as they were, and when they raise (import, device query, model load, move to the
  device, attention slicing or generation) the run exits with status 1 with the file
  system unchanged. When they return an image, \<^verbatim>\<open>os.makedirs\<close> is called, and
  \<^verbatim>\<open>image.save\<close> after it if the directory could be made. What \<^verbatim>\<open>os.makedirs\<close> has
  made stays, also when it raises after making parents and when the save then fails; a
  save that fails touches no file but the one at its path.
\<close>

theorem files_only_after_generation:
  assumes "produce_image E p m (parse_use_cpu u) (start D F) = (r1, w1)"
    and "generator_main E p m d u (start D F) = (out, w)"
  shows "filter is_fs_call (trace w1) = [] \<and> dirs w1 = D \<and> files w1 = F \<and>
    prefix (trace w1) (trace w) \<and>
    (case r1 of
       Inl e \<Rightarrow> out = Exited 1 \<and> dirs w = D \<and> files w = F \<and>
         filter is_fs_call (trace w) = []
     | Inr img \<Rightarrow>
         filter is_fs_call (trace w) =
           Makedirs d # (if snd (makedirs E d) = None
                         then [Save (path_join d (output_name (time_now E))) img] else []) \<and>
         dirs w = (if snd (makedirs E d) = None then insert d (D \<union> fst (makedirs E d))
                   else D \<union> fst (makedirs E d)) \<and>
         (snd (makedirs E d) \<noteq> None \<longrightarrow> files w = F) \<and>
         (\<forall>q. q \<noteq> path_join d (output_name (time_now E)) \<longrightarrow> files w q = F q))"
  using assms(2)
proof (cases rule: generator_main_split)
  case (1 e w1')
  with assms(1) have eq: "r1 = Inl e" "w1' = w1" by simp_all
  from produce_image_quiet[OF assms(1)] report_failure_result[OF 1(2)] eq
  show ?thesis by (simp add: start_def)
next
  case (2 img w1' e w2)
  with assms(1) have eq: "r1 = Inr img" "w1' = w1" by simp_all
  from produce_image_quiet[OF assms(1)] store_image_result[OF 2(2)]
    report_failure_result[OF 2(3)] eq
  show ?thesis by (auto simp: start_def split: option.splits dest: append_prefixD)
next
  case (3 img w1' path)
  with assms(1) have eq: "r1 = Inr img" "w1' = w1" by simp_all
  from produce_image_quiet[OF assms(1)] store_image_result[OF 3(2)] eq
  show ?thesis by (auto simp: start_def)
qed

theorem files_only_after_generation_witness:
  "fst (generator_main env_no_diffusers ''a cat'' ''sd-turbo'' ''out'' ''false''
      (start {} Map.empty)) = Exited 1 \<and>
   dirs (snd (generator_main env_no_diffusers ''a cat'' ''sd-turbo'' ''out'' ''false''
      (start {} Map.empty))) = {} \<and>
   files (snd (generator_main env_no_diffusers ''a cat'' ''sd-turbo'' ''out'' ''false''
      (start {} Map.empty))) = Map.empty"
proof -
  have p: "produce_image env_no_diffusers ''a cat'' ''sd-turbo'' (parse_use_cpu ''false'')
      (start {} Map.empty) = (Inl (ImportError ''No module named diffusers''), start {} Map.empty)"
    by (simp add: produce_image_def step_defs env_no_diffusers_def env_ok_def)
  obtain out w where g: "generator_main env_no_diffusers ''a cat'' ''sd-turbo'' ''out'' ''false''
      (start {} Map.empty) = (out, w)" by (cases "generator_main env_no_diffusers ''a cat'' ''sd-turbo'' ''out'' ''false''
      (start {} Map.empty)")
  from files_only_after_generation [OF p g] g show ?thesis by simp
qed

text \<open>
  The claim as stated ends with "the filesystem is unchanged on every error path". A run
  whose save fails is an error path (exit status 1), and it has created the directory; so
  is a run whose \<^verbatim>\<open>os.makedirs\<close> raises after it has made the parent \<^verbatim>\<open>np\<close>.
\<close>

theorem save_failure_leaves_directory:
  "fst (generator_main env_save_fails ''a cat'' ''sd-turbo'' ''out'' ''false''
      (start {} Map.empty)) = Exited 1 \<and>
   dirs (snd (generator_main env_save_fails ''a cat'' ''sd-turbo'' ''out'' ''false''
      (start {} Map.empty))) = {''out''} \<and>
   fst (generator_main env_makedirs_fails ''a cat'' ''sd-turbo'' ''np/images'' ''false''
      (start {} Map.empty)) = Exited 1 \<and>
   dirs (snd (generator_main env_makedirs_fails ''a cat'' ''sd-turbo'' ''np/images'' ''false''
      (start {} Map.empty))) = {''np''} \<and>
   dirs (start {} Map.empty) = {}"
  by (simp add: generator_main_def generate_image_def handle_def generate_body_def
      produce_image_def store_image_def step_defs call_defs env_ok_def env_save_fails_def
      env_makedirs_fails_def start_def report_failure_def
      select_device_def select_dtype_def output_name_example path_join_def
      sampling_params_examples parse_use_cpu_false)

section \<open>The claims about the installer and about failures\<close>

text \<open>
  C7. A run of the installer that succeeds prints exactly once to standard output, the
  line \<^verbatim>\<open>INSTALL_OK\<close>; a run that fails exits with status 1 and prints nothing to
  standard output. A run succeeds exactly when both imports, the device selection and the
  model load succeed.
\<close>

theorem installer_stdout_line:
  assumes "installer_main E m u (start D F) = (out, w)"
  shows "(case out of
            Returned x \<Rightarrow> stdout_of (trace w) = [Stdout ''INSTALL_OK'']
          | Exited n \<Rightarrow> n = 1 \<and> stdout_of (trace w) = []) \<and>
    (out = Returned () \<longleftrightarrow>
       import_diffusers E = None \<and> import_torch E = None \<and>
       (\<exists>device. select_device (cuda_is_available E) (parse_use_cpu u) = Inr device \<and>
          from_pretrained E m (select_dtype device) (hf_token E) = None))"
  using assms
  by (auto simp: installer_defs step_defs start_def stdout_of_def
      split: option.splits sum.splits exn.splits)

theorem installer_stdout_line_witness:
  "stdout_of (trace (snd (installer_main env_ok ''sd-turbo'' ''false'' (start {} Map.empty)))) =
     [Stdout ''INSTALL_OK''] \<and>
   fst (installer_main env_load_fails ''sd-turbo'' ''false'' (start {} Map.empty)) = Exited 1 \<and>
   stdout_of (trace (snd (installer_main env_load_fails ''sd-turbo'' ''false''
     (start {} Map.empty)))) = []"
  using installer_stdout_line [OF install_ok] installer_stdout_line [OF install_load_fails]
  by (simp add: install_ok install_load_fails)

text \<open>
  C4. Both entry points end a failing run in one of two ways, by the class of the
  exception that left the \<^verbatim>\<open>try\<close> body. An \<^verbatim>\<open>ImportError\<close> with message \<open>msg\<close> adds
  the line \<^verbatim>\<open>ERROR: Missing required library: msg\<close> to standard error and no stack
  trace; any other exception adds the line \<^verbatim>\<open>ERROR: msg\<close> and the stack trace. Both
  exit with status 1, and in both nothing has been written to standard output and no
  other trace has been printed.
\<close>

theorem error_reporting:
  assumes "generate_body E p m d (parse_use_cpu u) (start D F) = (gr, gw)"
    and "install_body E m' u' (disable_progress_bars (start D F)) = (ir, iw)"
  shows "generator_main E p m d u (start D F) =
      (case gr of
         Inr path \<Rightarrow> (Returned path, gw)
       | Inl (ImportError msg) \<Rightarrow>
           (Exited 1,
            gw\<lparr>trace := trace gw @ [Stderr (''ERROR: Missing required library: '' @ msg)]\<rparr>)
       | Inl (OtherException msg) \<Rightarrow>
           (Exited 1,
            gw\<lparr>trace := trace gw @
              [Stderr (''ERROR: '' @ msg), Traceback (OtherException msg)]\<rparr>)) \<and>
    installer_main E m' u' (start D F) =
      (case ir of
         Inr x \<Rightarrow> (Returned x, iw)
       | Inl (ImportError msg) \<Rightarrow>
           (Exited 1,
            iw\<lparr>trace := trace iw @ [Stderr (''ERROR: Missing required library: '' @ msg)]\<rparr>)
       | Inl (OtherException msg) \<Rightarrow>
           (Exited 1,
            iw\<lparr>trace := trace iw @
              [Stderr (''ERROR: '' @ msg), Traceback (OtherException msg)]\<rparr>)) \<and>
    (\<forall>e. gr = Inl e \<longrightarrow> stdout_of (trace gw) = [] \<and> filter is_traceback (trace gw) = []) \<and>
    (\<forall>e. ir = Inl e \<longrightarrow> stdout_of (trace iw) = [] \<and> filter is_traceback (trace iw) = [])"
proof -
  have g: "generator_main E p m d u (start D F) =
      (case gr of
         Inr path \<Rightarrow> (Returned path, gw)
       | Inl (ImportError msg) \<Rightarrow>
           (Exited 1,
            gw\<lparr>trace := trace gw @ [Stderr (''ERROR: Missing required library: '' @ msg)]\<rparr>)
       | Inl (OtherException msg) \<Rightarrow>
           (Exited 1,
            gw\<lparr>trace := trace gw @
              [Stderr (''ERROR: '' @ msg), Traceback (OtherException msg)]\<rparr>))"
    using assms(1)
    by (simp add: generator_main_def generate_image_def handle_def report_failure_def
        split: sum.splits exn.splits)
  have i: "installer_main E m' u' (start D F) =
      (case ir of
         Inr x \<Rightarrow> (Returned x, iw)
       | Inl (ImportError msg) \<Rightarrow>
           (Exited 1,
            iw\<lparr>trace := trace iw @ [Stderr (''ERROR: Missing required library: '' @ msg)]\<rparr>)
       | Inl (OtherException msg) \<Rightarrow>
           (Exited 1,
            iw\<lparr>trace := trace iw @
              [Stderr (''ERROR: '' @ msg), Traceback (OtherException msg)]\<rparr>))"
    using assms(2)
    by (simp add: installer_main_def handle_def report_failure_def
        split: sum.splits exn.splits)
  from g i generate_body_failure_quiet install_body_failure_quiet assms
  show ?thesis by blast
qed

theorem error_reporting_witness:
  "generator_main env_no_diffusers ''a cat'' ''sd-turbo'' ''out'' ''false'' (start {} Map.empty) =
     (Exited 1,
      \<lparr>trace = [Stderr ''ERROR: Missing required library: No module named diffusers''],
       dirs = {}, files = Map.empty, done_flag = False\<rparr>) \<and>
   installer_main env_no_diffusers ''sd-turbo'' ''false'' (start {} Map.empty) =
     (Exited 1,
      \<lparr>trace = [Setenv ''HF_HUB_DISABLE_PROGRESS_BARS'' ''1'',
         Stderr ''ERROR: Missing required library: No module named diffusers''],
       dirs = {}, files = Map.empty, done_flag = False\<rparr>) \<and>
   generator_main env_load_fails ''a cat'' ''sd-turbo'' ''out'' ''false'' (start {} Map.empty) =
     (Exited 1,
      \<lparr>trace = [Stderr ''Loading model: sd-turbo'', Stderr ''Using device: cpu'',
         FromPretrained ''sd-turbo'' Float32 None,
         Stderr ''ERROR: Connection reset'', Traceback (OtherException ''Connection reset'')],
       dirs = {}, files = Map.empty, done_flag = False\<rparr>) \<and>
   installer_main env_load_fails ''sd-turbo'' ''false'' (start {} Map.empty) =
     (Exited 1,
      \<lparr>trace = [Setenv ''HF_HUB_DISABLE_PROGRESS_BARS'' ''1'',
         Stderr ''Downloading model: sd-turbo'', Stderr size_note, Stderr cancel_note,
         ThreadStart, FromPretrained ''sd-turbo'' Float32 None, DoneSet,
         Stderr ''ERROR: Connection reset'', Traceback (OtherException ''Connection reset'')],
       dirs = {}, files = Map.empty, done_flag = True\<rparr>)"
  using error_reporting [OF generate_body_no_diffusers install_body_no_diffusers]
    error_reporting [OF generate_load_fails install_body_load_fails]
  by (simp add: start_def disable_progress_bars_def)

text \<open>
  C5. The heartbeat thread is started exactly when both imports succeed, and then the
  run sets the stop event: \<^verbatim>\<open>done.set()\<close> comes directly after the model load (or
  after the device selection when that raises and nothing is loaded), whether the load
  returned or raised, and before the success or error report; the event is set when the
  run ends. \<^verbatim>\<open>progress_ping\<close> returns at the first read that finds the event set.
\<close>

theorem heartbeat_stopped:
  assumes "installer_main E m u (start D F) = (out, w)"
  shows "(ThreadStart \<in> set (trace w) \<longleftrightarrow> import_diffusers E = None \<and> import_torch E = None) \<and>
    (import_diffusers E = None \<and> import_torch E = None \<longrightarrow>
       done_flag w \<and>
       (\<exists>dl fin. trace w =
           [Setenv ''HF_HUB_DISABLE_PROGRESS_BARS'' ''1'', Stderr (''Downloading model: '' @ m),
            Stderr size_note, Stderr cancel_note, ThreadStart] @ dl @ DoneSet # fin \<and>
          list_all is_load dl \<and> list_all is_report fin)) \<and>
    snd (progress_ping (replicate n False @ True # reads) c)"
proof (intro conjI impI)
  show "ThreadStart \<in> set (trace w) \<longleftrightarrow> import_diffusers E = None \<and> import_torch E = None"
    by (rule installer_thread_started [OF assms])
next
  assume ok: "import_diffusers E = None \<and> import_torch E = None"
  then have d: "import_diffusers E = None" and t: "import_torch E = None" by simp_all
  from installer_trace [OF assms d t] show "done_flag w" by (rule conjunct1)
next
  assume ok: "import_diffusers E = None \<and> import_torch E = None"
  let ?dl = "case select_device (cuda_is_available E) (parse_use_cpu u) of
           Inl e \<Rightarrow> []
         | Inr device \<Rightarrow> [FromPretrained m (select_dtype device) (hf_token E)]"
  have "list_all is_load ?dl" by (simp split: sum.splits)
  moreover from ok have d: "import_diffusers E = None" and t: "import_torch E = None"
    by simp_all
  from installer_trace [OF assms d t, THEN conjunct2] obtain fin where
    "trace w =
        [Setenv ''HF_HUB_DISABLE_PROGRESS_BARS'' ''1'', Stderr (''Downloading model: '' @ m),
         Stderr size_note, Stderr cancel_note, ThreadStart] @ ?dl @ DoneSet # fin \<and>
     list_all is_report fin" by (rule exE)
  ultimately show "\<exists>dl fin. trace w =
           [Setenv ''HF_HUB_DISABLE_PROGRESS_BARS'' ''1'', Stderr (''Downloading model: '' @ m),
            Stderr size_note, Stderr cancel_note, ThreadStart] @ dl @ DoneSet # fin \<and>
          list_all is_load dl \<and> list_all is_report fin" by blast
next
  show "snd (progress_ping (replicate n False @ True # reads) c)"
    by (rule progress_ping_stops)
qed

theorem heartbeat_stopped_witness:
  "done_flag (snd (installer_main env_load_fails ''sd-turbo'' ''false'' (start {} Map.empty))) \<and>
   done_flag (snd (installer_main env_ok ''sd-turbo'' ''false'' (start {} Map.empty))) \<and>
   snd (progress_ping [False, False, False, True] 0)"
proof -
  have ok: "import_diffusers env_ok = None \<and> import_torch env_ok = None"
    by (simp add: env_ok_def)
  have lf: "import_diffusers env_load_fails = None \<and> import_torch env_load_fails = None"
    by (simp add: env_load_fails_def env_ok_def)
  have r: "replicate 3 False @ [True] = [False, False, False, True]"
    by (simp add: numeral_3_eq_3)
  from heartbeat_stopped [OF install_load_fails, of 3 "[]" 0]
    heartbeat_stopped [OF install_ok, of 3 "[]" 0] ok lf
  show ?thesis unfolding r by (simp add: install_load_fails install_ok)
qed

section \<open>The claims about device and precision\<close>

text \<open>
  C3. In the generator and in the installer the device is chosen by the same expression:
  when the flag parses to true the device is "cpu" whatever the accelerator query would
  give (also when it would raise); when the flag parses to false the device is "cuda" if
  an accelerator is available and "cpu" otherwise. The generator reports that device on
  standard error, and the installer loads the model with the precision of that device.
\<close>

theorem device_resolution:
  "(parse_use_cpu flag \<longrightarrow> select_device cuda (parse_use_cpu flag) = Inr ''cpu'') \<and>
   (\<not> parse_use_cpu flag \<longrightarrow>
      select_device (Inr True) (parse_use_cpu flag) = Inr ''cuda'' \<and>
      select_device (Inr False) (parse_use_cpu flag) = Inr ''cpu'') \<and>
   (import_diffusers E = None \<and> import_torch E = None \<and> cuda_is_available E = Inr available \<longrightarrow>
      Stderr (''Using device: '' @
          (if parse_use_cpu flag then ''cpu'' else if available then ''cuda'' else ''cpu''))
        \<in> set (trace (snd (generator_main E p m d flag (start D F)))) \<and>
      filter is_load (trace (snd (installer_main E m flag (start D F)))) =
        [FromPretrained m
           (select_dtype (if parse_use_cpu flag then ''cpu''
                          else if available then ''cuda'' else ''cpu''))
           (hf_token E)])"
proof (intro conjI impI)
  assume a: "import_diffusers E = None \<and> import_torch E = None \<and> cuda_is_available E = Inr available"
  let ?dev = "if parse_use_cpu flag then ''cpu'' else if available then ''cuda'' else ''cpu''"
  from a have sel: "select_device (cuda_is_available E) (parse_use_cpu flag) = Inr ?dev"
    by (simp add: select_device_def)
  from a have d: "import_diffusers E = None" and t: "import_torch E = None" by simp_all
  obtain out w where g: "generator_main E p m d flag (start D F) = (out, w)"
    by (cases "generator_main E p m d flag (start D F)")
  from generator_device [OF g d t sel] g
  show "Stderr (''Using device: '' @ ?dev)
      \<in> set (trace (snd (generator_main E p m d flag (start D F))))" by simp
  obtain out' w' where i: "installer_main E m flag (start D F) = (out', w')"
    by (cases "installer_main E m flag (start D F)")
  from installer_loads [OF i d t sel] i
  show "filter is_load (trace (snd (installer_main E m flag (start D F)))) =
      [FromPretrained m (select_dtype ?dev) (hf_token E)]" by simp
qed (simp_all add: select_device_def)

theorem device_resolution_witness:
  "select_device (Inr True) (parse_use_cpu ''TRUE'') = Inr ''cpu'' \<and>
   select_device (Inr True) (parse_use_cpu ''false'') = Inr ''cuda'' \<and>
   select_device (Inr False) (parse_use_cpu ''false'') = Inr ''cpu'' \<and>
   Stderr ''Using device: cpu''
     \<in> set (trace (snd (generator_main env_ok ''a cat'' ''sd-turbo'' ''out'' ''false''
         (start {} Map.empty))))"
proof -
  have t: "parse_use_cpu ''TRUE''"
    by (simp add: parse_use_cpu_def lower_def lower_char_def) code_simp
  have e: "import_diffusers env_ok = None \<and> import_torch env_ok = None \<and>
      cuda_is_available env_ok = Inr False" by (simp add: env_ok_def)
  from device_resolution [of "''TRUE''" "Inr True"]
    device_resolution [of "''false''" "Inr True" env_ok False "''a cat''" "''sd-turbo''" "''out''"
      "{}" Map.empty] t e parse_use_cpu_false
  show ?thesis by simp
qed

text \<open>
  C8. In a run whose imports and device selection succeed, the device is "cuda" or
  "cpu", and the one model load of the run, in the generator and in the installer, asks
  for 16-bit floats when the device is "cuda" and for 32-bit floats when it is "cpu".
\<close>

theorem precision_resolution:
  assumes "import_diffusers E = None" and "import_torch E = None"
    and "select_device (cuda_is_available E) (parse_use_cpu u) = Inr device"
  shows "(device = ''cuda'' \<or> device = ''cpu'') \<and>
    filter is_load (trace (snd (generator_main E p m d u (start D F)))) =
      [FromPretrained m (if device = ''cuda'' then Float16 else Float32) None] \<and>
    filter is_load (trace (snd (installer_main E m u (start D F)))) =
      [FromPretrained m (if device = ''cuda'' then Float16 else Float32) (hf_token E)]"
proof -
  obtain out w where g: "generator_main E p m d u (start D F) = (out, w)"
    by (cases "generator_main E p m d u (start D F)")
  obtain out' w' where i: "installer_main E m u (start D F) = (out', w')"
    by (cases "installer_main E m u (start D F)")
  have "device = ''cuda'' \<or> device = ''cpu''"
    using assms(3) by (auto simp: select_device_def split: if_splits sum.splits)
  with generator_device [OF g assms] installer_loads [OF i assms] g i
  show ?thesis by (simp add: select_dtype_def)
qed

theorem precision_resolution_witness:
  "filter is_load (trace (snd (generator_main env_ok ''a cat'' ''sd-turbo'' ''out'' ''false''
      (start {} Map.empty)))) = [FromPretrained ''sd-turbo'' Float32 None] \<and>
   filter is_load (trace (snd (installer_main env_ok ''sd-turbo'' ''false''
      (start {} Map.empty)))) = [FromPretrained ''sd-turbo'' Float32 None] \<and>
   filter is_load (trace (snd (installer_main (env_ok\<lparr>cuda_is_available := Inr True\<rparr>)
      ''sd-turbo'' ''false'' (start {} Map.empty)))) = [FromPretrained ''sd-turbo'' Float16 None]"
proof -
  have a: "import_diffusers env_ok = None" "import_torch env_ok = None"
    "select_device (cuda_is_available env_ok) (parse_use_cpu ''false'') = Inr ''cpu''"
    by (simp_all add: env_ok_def select_device_def parse_use_cpu_false)
  have b: "import_diffusers (env_ok\<lparr>cuda_is_available := Inr True\<rparr>) = None"
    "import_torch (env_ok\<lparr>cuda_is_available := Inr True\<rparr>) = None"
    "select_device (cuda_is_available (env_ok\<lparr>cuda_is_available := Inr True\<rparr>))
       (parse_use_cpu ''false'') = Inr ''cuda''"
    by (simp_all add: env_ok_def select_device_def parse_use_cpu_false)
  have h: "hf_token (env_ok\<lparr>cuda_is_available := Inr True\<rparr>) = None"
    by (simp add: hf_token_def py_or_def env_ok_def)
  from precision_resolution [OF a, of "''a cat''" "''sd-turbo''" "''out''" "{}" Map.empty]
    precision_resolution [OF b, of "''a cat''" "''sd-turbo''" "''out''" "{}" Map.empty]
    h hf_token_env_ok
  show ?thesis by simp
qed

end
